theory Spec2Isabelle
  imports Complex_Main
begin

section \<open>JavaScript values and plain objects\<close>

text \<open>
  The models and helpers of express-jobly work on JavaScript values: the fields of a
  request body or of a search filter, the positional arguments of a statement, the
  columns of a result row and the objects the models return. Numbers are modelled as
  integers (the numeric columns the models read and write are integers, and employee
  counts are whole numbers); \<open>NaN\<close> appears only as the result of a conversion, as
  \<open>None\<close>.

  A plain object is the list of its own enumerable properties in iteration order, the
  order in which \<open>Object.keys\<close> and \<open>Object.values\<close> visit them. \<open>JFun f\<close> is the
  built-in function named \<open>f\<close>.
\<close>

datatype jsval =
    JUndefined
  | JNull
  | JBool bool
  | JNum int
  | JStr string
  | JArr "jsval list"
  | JObj "(string \<times> jsval) list"
  | JFun string

type_synonym jsobj = "(string \<times> jsval) list"

definition Object_keys :: "jsobj \<Rightarrow> string list" where
  "Object_keys obj = map fst obj"

definition Object_values :: "jsobj \<Rightarrow> jsval list" where
  "Object_values obj = map snd obj"

text \<open>
  \<open>get_prop\<close> reads an own property, \<open>undefined\<close> when the object does not have it. It
  is the reading of a property under a fixed name that \<open>Object.prototype\<close> does not
  define (\<open>name\<close>, \<open>minEmployees\<close>, \<open>maxEmployees\<close>, the columns of a row).
\<close>

definition get_prop :: "jsobj \<Rightarrow> string \<Rightarrow> jsval" where
  "get_prop obj k = (case map_of obj k of None \<Rightarrow> JUndefined | Some v \<Rightarrow> v)"

text \<open>
  \<open>obj[key]\<close> under a computed key goes on to the prototype of a plain object when the
  object has no own property of that name. \<open>Object.prototype\<close> holds the constructor
  \<open>Object\<close>, ten methods, and the accessor \<open>__proto__\<close>, which gives the prototype object
  itself (an object without enumerable properties).
\<close>

definition Object_prototype :: "string \<Rightarrow> jsval option" where
  "Object_prototype key =
     (if key = ''constructor'' then Some (JFun ''Object'')
      else if key \<in> set [''__defineGetter__'', ''__defineSetter__'', ''hasOwnProperty'',
                          ''__lookupGetter__'', ''__lookupSetter__'', ''isPrototypeOf'',
                          ''propertyIsEnumerable'', ''toString'', ''valueOf'', ''toLocaleString'']
      then Some (JFun key)
      else if key = ''__proto__'' then Some (JObj [])
      else None)"

definition get_member :: "jsobj \<Rightarrow> string \<Rightarrow> jsval" where
  "get_member obj key =
     (case map_of obj key of
        Some v \<Rightarrow> v
      | None \<Rightarrow> (case Object_prototype key of Some v \<Rightarrow> v | None \<Rightarrow> JUndefined))"

text \<open>Truthiness, and \<open>a || b\<close>: the left operand when it is truthy, the right one otherwise.\<close>

fun truthy :: "jsval \<Rightarrow> bool" where
  "truthy JUndefined = False"
| "truthy JNull = False"
| "truthy (JBool b) = b"
| "truthy (JNum n) = (n \<noteq> 0)"
| "truthy (JStr s) = (s \<noteq> [])"
| "truthy (JArr xs) = True"
| "truthy (JObj ps) = True"
| "truthy (JFun f) = True"

definition js_or :: "jsval \<Rightarrow> jsval \<Rightarrow> jsval" where
  "js_or a b = (if truthy a then a else b)"

text \<open>\<open>Array.prototype.join\<close>: the elements separated by \<open>sep\<close>, the empty string for no element.\<close>

fun js_join :: "string \<Rightarrow> string list \<Rightarrow> string" where
  "js_join sep [] = []"
| "js_join sep [x] = x"
| "js_join sep (x # y # ys) = x @ sep @ js_join sep (y # ys)"

text \<open>
  \<open>ToString\<close>, the conversion a template literal applies to an interpolated value. Numbers
  are rendered in decimal, all digits written (as JavaScript does below \<open>1e21\<close>); an array
  is its elements joined by commas, with \<open>undefined\<close> and \<open>null\<close> elements left empty; a
  built-in function is rendered as Node.js renders it.
\<close>

definition digit :: "nat \<Rightarrow> char" where
  "digit d = ''0123456789'' ! d"

fun decimal :: "nat \<Rightarrow> string" where
  "decimal n = (if 10 \<le> n then decimal (n div 10) else []) @ [digit (n mod 10)]"

declare decimal.simps [simp del]

definition number_to_string :: "int \<Rightarrow> string" where
  "number_to_string i = (if 0 \<le> i then decimal (nat i) else CHR ''-'' # decimal (nat (- i)))"

fun ToString :: "jsval \<Rightarrow> string" where
  "ToString JUndefined = ''undefined''"
| "ToString JNull = ''null''"
| "ToString (JBool b) = (if b then ''true'' else ''false'')"
| "ToString (JNum n) = number_to_string n"
| "ToString (JStr s) = s"
| "ToString (JArr xs) =
     js_join '','' (map (\<lambda>x. if x = JUndefined \<or> x = JNull then [] else ToString x) xs)"
| "ToString (JObj ps) = ''[object Object]''"
| "ToString (JFun f) = ''function '' @ f @ ''() { [native code] }''"

text \<open>
  \<open>a > b\<close>. Both operands are made primitive; two strings are compared by their code
  units, and any other pair is compared as numbers, the comparison being false when
  either side converts to \<open>NaN\<close>. \<open>StringToNumber\<close> reads an optionally signed run of
  decimal digits, surrounded by white space, and the blank string as zero; the other
  numeric literal forms (fractions, exponents, radix prefixes, \<open>Infinity\<close>) do not denote
  values of the integer model and are read as \<open>NaN\<close>.
\<close>

fun ToPrimitive :: "jsval \<Rightarrow> jsval" where
  "ToPrimitive (JArr xs) = JStr (ToString (JArr xs))"
| "ToPrimitive (JObj ps) = JStr (ToString (JObj ps))"
| "ToPrimitive (JFun f) = JStr (ToString (JFun f))"
| "ToPrimitive v = v"

definition is_space :: "char \<Rightarrow> bool" where
  "is_space c = (c \<in> set [CHR '' '', CHR 0x09, CHR 0x0A, CHR 0x0B, CHR 0x0C, CHR 0x0D])"

definition trim :: "string \<Rightarrow> string" where
  "trim s = rev (dropWhile is_space (rev (dropWhile is_space s)))"

definition is_digit :: "char \<Rightarrow> bool" where
  "is_digit c = (48 \<le> (of_char c :: nat) \<and> (of_char c :: nat) \<le> 57)"

definition StrUnsigned :: "string \<Rightarrow> int option" where
  "StrUnsigned s =
     (if s \<noteq> [] \<and> list_all is_digit s
      then Some (int (foldl (\<lambda>a c. 10 * a + (of_char c - 48)) 0 s))
      else None)"

definition StringToNumber :: "string \<Rightarrow> int option" where
  "StringToNumber s =
     (case trim s of
        [] \<Rightarrow> Some 0
      | c # r \<Rightarrow>
          if c = CHR ''-'' then map_option uminus (StrUnsigned r)
          else if c = CHR ''+'' then StrUnsigned r
          else StrUnsigned (c # r))"

fun ToNumber :: "jsval \<Rightarrow> int option" where
  "ToNumber JUndefined = None"
| "ToNumber JNull = Some 0"
| "ToNumber (JBool b) = Some (if b then 1 else 0)"
| "ToNumber (JNum n) = Some n"
| "ToNumber (JStr s) = StringToNumber s"
| "ToNumber v = StringToNumber (ToString v)"

fun str_lt :: "string \<Rightarrow> string \<Rightarrow> bool" where
  "str_lt [] [] = False"
| "str_lt [] (y # ys) = True"
| "str_lt (x # xs) [] = False"
| "str_lt (x # xs) (y # ys) =
     (if (of_char x :: nat) < of_char y then True
      else if (of_char y :: nat) < of_char x then False
      else str_lt xs ys)"

definition js_gt :: "jsval \<Rightarrow> jsval \<Rightarrow> bool" where
  "js_gt a b =
     (case (ToPrimitive a, ToPrimitive b) of
        (JStr s, JStr t) \<Rightarrow> str_lt t s
      | (pa, pb) \<Rightarrow>
          (case (ToNumber pa, ToNumber pb) of
             (Some m, Some n) \<Rightarrow> n < m
           | _ \<Rightarrow> False))"

section \<open>Errors\<close>

text \<open>
  The error classes of \<open>expressError.js\<close> that the models throw, each with its message, and
  a failure of the database driver, which the models let through.
\<close>

datatype error =
    BadRequestError string
  | NotFoundError string
  | UnauthorizedError
  | DatabaseError string

section \<open>helpers/sql.js: sqlForPartialUpdate\<close>

text \<open>
  \<^verbatim>\<open>
  function sqlForPartialUpdate(dataToUpdate, jsToSql) {
    const keys = Object.keys(dataToUpdate);
    if (keys.length === 0) throw new BadRequestError("No data");
    const cols = keys.map((colName, idx) =>
      `"${jsToSql[colName] || colName}"=$${idx + 1}`);
    return { setCols: cols.join(", "), values: Object.values(dataToUpdate) };
  }
  \<close>
  The result object is a record; its field \<open>values\<close> is written \<open>values'\<close>. The key
  \<open>colName\<close> is computed, so \<open>jsToSql[colName]\<close> is read with \<open>get_member\<close>.
\<close>

record partial_update =
  setCols :: string
  values' :: "jsval list"

definition sqlForPartialUpdate :: "jsobj \<Rightarrow> jsobj \<Rightarrow> error + partial_update" where
  \<open>sqlForPartialUpdate dataToUpdate jsToSql =
     (let keys = Object_keys dataToUpdate in
      if length keys = 0 then Inl (BadRequestError ''No data'')
      else
        let cols = map (\<lambda>(idx, colName).
                     ''"'' @ ToString (js_or (get_member jsToSql colName) (JStr colName))
                       @ ''"=$'' @ decimal (idx + 1))
                   (enumerate 0 keys)
        in Inr \<lparr>setCols = js_join '', '' cols, values' = Object_values dataToUpdate\<rparr>)\<close>

section \<open>The database driver\<close>

text \<open>
  \<open>db.query(text, values)\<close> hands a statement to PostgreSQL and resolves to the rows of its
  answer, or rejects with the message of the database. The driver is a parameter of every
  model function: it gives, for each statement, the answer of the database. A model
  function returns its outcome (the value it resolves to, or the error it throws)
  together with the statements it has issued, in order.
\<close>

type_synonym stmt = "string \<times> jsval list"

type_synonym db = "stmt \<Rightarrow> string + jsobj list"

type_synonym 'a io = "(error + 'a) \<times> stmt list"

definition return :: "'a \<Rightarrow> 'a io" where
  "return x = (Inr x, [])"

definition throw :: "error \<Rightarrow> 'a io" where
  "throw e = (Inl e, [])"

definition await :: "'a io \<Rightarrow> ('a \<Rightarrow> 'b io) \<Rightarrow> 'b io" where
  "await m f =
     (case m of
        (Inl e, issued) \<Rightarrow> (Inl e, issued)
      | (Inr x, issued) \<Rightarrow> (case f x of (r, issued') \<Rightarrow> (r, issued @ issued')))"

definition db_query :: "db \<Rightarrow> string \<Rightarrow> jsval list \<Rightarrow> jsobj list io" where
  "db_query db text values =
     (case db (text, values) of
        Inl message \<Rightarrow> (Inl (DatabaseError message), [(text, values)])
      | Inr rows \<Rightarrow> (Inr rows, [(text, values)]))"

text \<open>\<open>rows[0]\<close>: the first row as an object, \<open>undefined\<close> when there is none.\<close>

definition first_row :: "jsobj list \<Rightarrow> jsval" where
  "first_row rows = (case rows of [] \<Rightarrow> JUndefined | r # _ \<Rightarrow> JObj r)"

section \<open>models/company.js\<close>

subsection \<open>Company.findAll\<close>

text \<open>
  \<^verbatim>\<open>
  static async findAll(searchFilters = {}) {
    let query = `SELECT handle, ... FROM companies`;
    const whereStatements = [];
    const values = [];
    const { name, minEmployees, maxEmployees } = searchFilters;
    if (minEmployees > maxEmployees) {
      throw new BadRequestError('min employees can not be greater the max employees');
    }
    if (name !== undefined) {
      values.push(`%${name}%`);
      whereStatements.push(`name ILIKE $${values.length}`);
    }
    if (minEmployees !== undefined) {
      values.push(minEmployees);
      whereStatements.push(`num_employees >= $${values.length}`);
    }
    if (maxEmployees !== undefined) {
      values.push(maxEmployees);
      whereStatements.push(`num_employees <= $${values.length}`);
    }
    if (whereStatements.length > 0) {
      query += ` WHERE ${whereStatements.join(" AND ")}`
    }
    query += " ORDER BY name";
    const finalQuery = await db.query(query, values);
    return finalQuery.rows;
  }
  \<close>
  The two arrays are threaded through the three tests as a pair. Each test that succeeds
  pushes a value and then a predicate numbered by the new length of \<open>values\<close>.
\<close>

definition findAll_select :: string where
  \<open>findAll_select =
     ''SELECT handle,\<newline>                  name,\<newline>                  description,\<newline>                  num_employees AS "numEmployees",\<newline>                  logo_url AS "logoUrl"\<newline>           FROM companies''\<close>

definition push_filter ::
  "jsval \<Rightarrow> string \<Rightarrow> jsval list \<times> string list \<Rightarrow> jsval list \<times> string list" where
  "push_filter v predicate arrays =
     (case arrays of (values, whereStatements) \<Rightarrow>
        let values = values @ [v];
            whereStatements = whereStatements @ [predicate @ decimal (length values)]
        in (values, whereStatements))"

definition findAll :: "db \<Rightarrow> jsobj \<Rightarrow> jsobj list io" where
  \<open>findAll db searchFilters =
     (let name = get_prop searchFilters ''name'';
          minEmployees = get_prop searchFilters ''minEmployees'';
          maxEmployees = get_prop searchFilters ''maxEmployees''
      in
        if js_gt minEmployees maxEmployees
        then throw (BadRequestError ''min employees can not be greater the max employees'')
        else
          let arrays = ([], []);
              arrays = (if name \<noteq> JUndefined
                        then push_filter (JStr (''%'' @ ToString name @ ''%'')) ''name ILIKE $'' arrays
                        else arrays);
              arrays = (if minEmployees \<noteq> JUndefined
                        then push_filter minEmployees ''num_employees >= $'' arrays
                        else arrays);
              arrays = (if maxEmployees \<noteq> JUndefined
                        then push_filter maxEmployees ''num_employees <= $'' arrays
                        else arrays);
              values = fst arrays;
              whereStatements = snd arrays;
              query = findAll_select;
              query = (if length whereStatements > 0
                       then query @ '' WHERE '' @ js_join '' AND '' whereStatements
                       else query);
              query = query @ '' ORDER BY name''
          in await (db_query db query values) (\<lambda>rows. return rows))\<close>

subsection \<open>Company.get\<close>

text \<open>
  \<open>get\<close> first reads the company row and prints it (the printing is not modelled), then
  reads the company joined with its jobs. Every row of the second answer gives one entry
  of \<open>jobs\<close>; the company's own fields are taken from the first row.
\<close>

definition get_lookup :: string where
  \<open>get_lookup = ''SELECT * FROM companies WHERE handle = $1''\<close>

definition get_select :: string where
  \<open>get_select =
     ''SELECT c.handle,\<newline>                  c.name,\<newline>                  c.description,\<newline>                  c.num_employees AS "numEmployees",\<newline>                  c.logo_url AS "logoUrl",\<newline>                  j.title,\<newline>                  j.salary,\<newline>                  j.equity,\<newline>                  j.id\<newline>           FROM companies AS c\<newline>           FULL JOIN jobs AS j\<newline>           ON c.handle = j.company_handle\<newline>           WHERE handle = $1''\<close>

definition get :: "db \<Rightarrow> jsval \<Rightarrow> jsval io" where
  "get db handle =
     await (db_query db get_lookup [handle]) (\<lambda>res.
     await (db_query db get_select [handle]) (\<lambda>companyRes.
       if length companyRes = 0
       then throw (NotFoundError (''No company: '' @ ToString handle))
       else
         let jobs = map (\<lambda>row. JObj [(''id'', get_prop row ''id''),
                                      (''title'', get_prop row ''title''),
                                      (''salary'', get_prop row ''salary''),
                                      (''equity'', get_prop row ''equity'')]) companyRes;
             company = JObj [(''handle'', get_prop (companyRes ! 0) ''handle''),
                             (''name'', get_prop (companyRes ! 0) ''name''),
                             (''description'', get_prop (companyRes ! 0) ''description''),
                             (''numEmployees'', get_prop (companyRes ! 0) ''numEmployees''),
                             (''logoUrl'', get_prop (companyRes ! 0) ''logoUrl''),
                             (''jobs'', JArr jobs)]
         in return company))"

subsection \<open>Company.update and Company.remove\<close>

text \<open>
  \<^verbatim>\<open>
  static async update(handle, data) {
    const { setCols, values } = sqlForPartialUpdate(data,
        { numEmployees: "num_employees", logoUrl: "logo_url" });
    const handleVarIdx = "$" + (values.length + 1);
    const querySql = `UPDATE companies SET ${setCols} WHERE handle = ${handleVarIdx}
                      RETURNING handle, ...`;
    const result = await db.query(querySql, [...values, handle]);
    const company = result.rows[0];
    if (!company) throw new NotFoundError(`No company: ${handle}`);
    return company;
  }
  \<close>
\<close>

definition update_text :: "string \<Rightarrow> string \<Rightarrow> string" where
  \<open>update_text cols handleVarIdx =
     ''UPDATE companies \<newline>                      SET '' @ cols
     @ '' \<newline>                      WHERE handle = '' @ handleVarIdx
     @ '' \<newline>                      RETURNING handle, \<newline>                                name, \<newline>                                description, \<newline>                                num_employees AS "numEmployees", \<newline>                                logo_url AS "logoUrl"''\<close>

definition update :: "db \<Rightarrow> jsval \<Rightarrow> jsobj \<Rightarrow> jsval io" where
  "update db handle data =
     (case sqlForPartialUpdate data
             [(''numEmployees'', JStr ''num_employees''), (''logoUrl'', JStr ''logo_url'')] of
        Inl e \<Rightarrow> throw e
      | Inr r \<Rightarrow>
          let handleVarIdx = ''$'' @ decimal (length (values' r) + 1);
              querySql = update_text (setCols r) handleVarIdx
          in await (db_query db querySql (values' r @ [handle])) (\<lambda>rows.
               let company = first_row rows in
               if \<not> truthy company
               then throw (NotFoundError (''No company: '' @ ToString handle))
               else return company))"

definition remove_text :: string where
  \<open>remove_text =
     ''DELETE\<newline>           FROM companies\<newline>           WHERE handle = $1\<newline>           RETURNING handle''\<close>

definition remove :: "db \<Rightarrow> jsval \<Rightarrow> jsval io" where
  "remove db handle =
     await (db_query db remove_text [handle]) (\<lambda>rows.
       let company = first_row rows in
       if \<not> truthy company
       then throw (NotFoundError (''No company: '' @ ToString handle))
       else return JUndefined)"

subsection \<open>The statements of Company.get, as PostgreSQL answers them\<close>

text \<open>
  What \<open>get\<close> returns depends on the answer to its \<open>FULL JOIN\<close>. The tables are lists of
  rows under their column names, with \<open>JNull\<close> for SQL's \<open>NULL\<close>. A full join has the
  pairs of rows that satisfy the join condition, then every left row without a partner,
  its right side filled with nulls, then every right row without a partner, its left side
  filled with nulls. A comparison with \<open>NULL\<close> is not true, so \<open>WHERE\<close> drops the row.
\<close>

definition sql_eq :: "jsval \<Rightarrow> jsval \<Rightarrow> bool" where
  "sql_eq a b = (a \<noteq> JNull \<and> b \<noteq> JNull \<and> a = b)"

definition full_join ::
  "jsobj list \<Rightarrow> jsobj list \<Rightarrow> (jsobj \<Rightarrow> jsobj \<Rightarrow> bool)
     \<Rightarrow> (jsobj option \<times> jsobj option) list" where
  "full_join left right cond =
     map (\<lambda>(l, r). (Some l, Some r)) (filter (\<lambda>(l, r). cond l r) (List.product left right))
     @ map (\<lambda>l. (Some l, None)) (filter (\<lambda>l. \<not> list_ex (cond l) right) left)
     @ map (\<lambda>r. (None, Some r)) (filter (\<lambda>r. \<not> list_ex (\<lambda>l. cond l r) left) right)"

definition column :: "jsobj option \<Rightarrow> string \<Rightarrow> jsval" where
  "column side c = (case side of None \<Rightarrow> JNull | Some r \<Rightarrow> get_prop r c)"

definition get_lookup_rows :: "jsobj list \<Rightarrow> jsval \<Rightarrow> jsobj list" where
  "get_lookup_rows companies handle =
     filter (\<lambda>c. sql_eq (get_prop c ''handle'') handle) companies"

definition get_select_rows :: "jsobj list \<Rightarrow> jsobj list \<Rightarrow> jsval \<Rightarrow> jsobj list" where
  "get_select_rows companies jobs handle =
     map (\<lambda>(c, j). [(''handle'', column c ''handle''),
                     (''name'', column c ''name''),
                     (''description'', column c ''description''),
                     (''numEmployees'', column c ''num_employees''),
                     (''logoUrl'', column c ''logo_url''),
                     (''title'', column j ''title''),
                     (''salary'', column j ''salary''),
                     (''equity'', column j ''equity''),
                     (''id'', column j ''id'')])
       (filter (\<lambda>(c, j). sql_eq (column c ''handle'') handle)
          (full_join companies jobs
             (\<lambda>c j. sql_eq (get_prop c ''handle'') (get_prop j ''company_handle''))))"

text \<open>The driver answers the two statements of \<open>get\<close> from the tables.\<close>

definition answers_get :: "db \<Rightarrow> jsobj list \<Rightarrow> jsobj list \<Rightarrow> jsval \<Rightarrow> bool" where
  "answers_get db companies jobs handle =
     (db (get_lookup, [handle]) = Inr (get_lookup_rows companies handle) \<and>
      db (get_select, [handle]) = Inr (get_select_rows companies jobs handle))"

section \<open>The job search filter\<close>

text \<open>
  Modelled from the spec: \<open>models/job.js\<close> (\<open>Job.findAll\<close>) is not among the sources, only
  its tests are. The filter criteria of a job search are \<open>title\<close>, \<open>minSalary\<close> and
  \<open>hasEquity\<close>. One predicate is added per present criterion, in the order title, minimum
  salary, equity; the equity predicate is added only when the flag is true. The title
  predicate is case-insensitive containment, the salary predicate is inclusive, and the
  equity predicate holds of a row whose equity is not null and greater than zero. The
  predicates are conjunctive.
\<close>

record job_criteria =
  title :: "string option"
  minSalary :: "int option"
  hasEquity :: "bool option"

datatype job_predicate = TitleContains string | SalaryAtLeast int | EquityPositive

record job =
  job_id :: int
  job_title :: string
  job_salary :: "int option"
  job_equity :: "rat option"
  job_companyHandle :: string

text \<open>
  Modelled from the spec: the predicates that \<open>Job.findAll\<close> (missing from the sources)
  compiles from the criteria, in the fixed order of section 4.2.
\<close>

definition job_predicates :: "job_criteria \<Rightarrow> job_predicate list" where
  "job_predicates criteria =
     (case title criteria of None \<Rightarrow> [] | Some t \<Rightarrow> [TitleContains t])
     @ (case minSalary criteria of None \<Rightarrow> [] | Some m \<Rightarrow> [SalaryAtLeast m])
     @ (if hasEquity criteria = Some True then [EquityPositive] else [])"

definition lower :: "char \<Rightarrow> char" where
  "lower c =
     (if 65 \<le> (of_char c :: nat) \<and> (of_char c :: nat) \<le> 90
      then char_of ((of_char c :: nat) + 32) else c)"

fun starts_with :: "string \<Rightarrow> string \<Rightarrow> bool" where
  "starts_with s [] = True"
| "starts_with [] (y # ys) = False"
| "starts_with (x # xs) (y # ys) = (x = y \<and> starts_with xs ys)"

fun contains :: "string \<Rightarrow> string \<Rightarrow> bool" where
  "contains [] t = starts_with [] t"
| "contains (x # xs) t = (starts_with (x # xs) t \<or> contains xs t)"

fun satisfies :: "job \<Rightarrow> job_predicate \<Rightarrow> bool" where
  "satisfies j (TitleContains t) = contains (map lower (job_title j)) (map lower t)"
| "satisfies j (SalaryAtLeast m) = (case job_salary j of None \<Rightarrow> False | Some s \<Rightarrow> m \<le> s)"
| "satisfies j EquityPositive = (case job_equity j of None \<Rightarrow> False | Some e \<Rightarrow> 0 < e)"

text \<open>
  Modelled from the spec: the rows that \<open>Job.findAll\<close> (missing from the sources) returns,
  those that satisfy every compiled predicate.
\<close>

definition job_search :: "job_criteria \<Rightarrow> job list \<Rightarrow> job list" where
  "job_search criteria rows = filter (\<lambda>j. list_all (satisfies j) (job_predicates criteria)) rows"

section \<open>The authorization gate of the user routes\<close>

text \<open>
  Modelled from the spec: \<open>middleware/auth.js\<close> (\<open>ensureUserOrAdmin\<close>) is not among the
  sources, only the routes that it guards are. The policy \<open>RequireSelfOrElevated\<close> is
  Allowed if the claims are elevated, or if the identity of the claims equals the identity
  bound to the route (the \<open>:username\<close> segment); else Denied.
\<close>

record claims =
  identity :: string
  isElevated :: bool

datatype decision = Allowed | Denied

text \<open>
  Modelled from the spec: the decision of \<open>ensureUserOrAdmin\<close> (missing from the sources),
  in the words of \<open>RequireSelfOrElevated\<close>, section 4.4.
\<close>

definition ensureUserOrAdmin :: "string \<Rightarrow> claims \<Rightarrow> decision" where
  "ensureUserOrAdmin routeIdentity c =
     (if isElevated c then Allowed
      else if identity c = routeIdentity then Allowed
      else Denied)"

text \<open>
  \<^verbatim>\<open>router.get("/:username", ensureUserOrAdmin, async function (req, res, next) {...})\<close>
  The route runs the middleware first and the handler only when the middleware lets the
  request through; a denied request ends with the unauthorized error and the handler, with
  every statement that it would issue, is not run.
\<close>

definition user_route :: "(string \<Rightarrow> 'a io) \<Rightarrow> claims \<Rightarrow> string \<Rightarrow> 'a io" where
  "user_route handler c username =
     (case ensureUserOrAdmin username c of
        Denied \<Rightarrow> throw UnauthorizedError
      | Allowed \<Rightarrow> handler username)"

section \<open>The clauses the specification describes\<close>

text \<open>
  The specification describes the SET clause of a partial update by its fragments: one
  fragment \<open>"column"=$n\<close> per key, \<open>n\<close> being the 1-based position of the key. It
  resolves the column as the mapper's entry when the key is present in the mapper, and as
  the key itself otherwise (\<open>claimed_column\<close>); the code resolves it as
  \<open>jsToSql[colName] || colName\<close> (\<open>resolved_column\<close>).
\<close>

definition set_fragment :: "string \<Rightarrow> nat \<Rightarrow> string" where
  \<open>set_fragment col n = ''"'' @ col @ ''"=$'' @ decimal n\<close>

definition set_fragments :: "(string \<Rightarrow> string) \<Rightarrow> string list \<Rightarrow> string list" where
  "set_fragments col keys =
     map (\<lambda>n. set_fragment (col (keys ! (n - 1))) n) [1..<Suc (length keys)]"

definition claimed_column :: "jsobj \<Rightarrow> string \<Rightarrow> string" where
  "claimed_column jsToSql key =
     (case map_of jsToSql key of Some v \<Rightarrow> ToString v | None \<Rightarrow> key)"

definition resolved_column :: "jsobj \<Rightarrow> string \<Rightarrow> string" where
  "resolved_column jsToSql key =
     (if truthy (get_member jsToSql key) then ToString (get_member jsToSql key) else key)"

text \<open>
  The specification describes the WHERE clause of a company search by the criteria that are
  present, in the fixed order name, minimum, maximum: each gives one positional value and
  one predicate that carries the position of its value.
\<close>

datatype criterion = NameContains jsval | MinEmployees jsval | MaxEmployees jsval

definition present_criteria :: "jsobj \<Rightarrow> criterion list" where
  "present_criteria searchFilters =
     (if get_prop searchFilters ''name'' \<noteq> JUndefined
      then [NameContains (get_prop searchFilters ''name'')] else [])
     @ (if get_prop searchFilters ''minEmployees'' \<noteq> JUndefined
        then [MinEmployees (get_prop searchFilters ''minEmployees'')] else [])
     @ (if get_prop searchFilters ''maxEmployees'' \<noteq> JUndefined
        then [MaxEmployees (get_prop searchFilters ''maxEmployees'')] else [])"

fun criterion_value :: "criterion \<Rightarrow> jsval" where
  "criterion_value (NameContains v) = JStr (''%'' @ ToString v @ ''%'')"
| "criterion_value (MinEmployees v) = v"
| "criterion_value (MaxEmployees v) = v"

fun criterion_predicate :: "criterion \<Rightarrow> nat \<Rightarrow> string" where
  "criterion_predicate (NameContains v) n = ''name ILIKE $'' @ decimal n"
| "criterion_predicate (MinEmployees v) n = ''num_employees >= $'' @ decimal n"
| "criterion_predicate (MaxEmployees v) n = ''num_employees <= $'' @ decimal n"

definition where_clause :: "criterion list \<Rightarrow> string" where
  "where_clause cs =
     (if cs = [] then []
      else '' WHERE '' @ js_join '' AND ''
             (map (\<lambda>n. criterion_predicate (cs ! (n - 1)) n) [1..<Suc (length cs)]))"

definition recognized :: "string list" where
  "recognized = [''name'', ''minEmployees'', ''maxEmployees'']"

section \<open>Sample data\<close>

text \<open>
  Two companies, of which only the first has a job, and the jobs of \<open>models/job.test.js\<close>:
  \<open>J1\<close> and \<open>J3\<close> have equity, \<open>J2\<close> has none; \<open>J4\<close> is a further job whose equity is zero.
\<close>

definition sample_companies :: "jsobj list" where
  "sample_companies =
     [[(''handle'', JStr ''c1''), (''name'', JStr ''C1''), (''description'', JStr ''Desc1''),
       (''num_employees'', JNum 1), (''logo_url'', JStr ''http://c1.img'')],
      [(''handle'', JStr ''c2''), (''name'', JStr ''C2''), (''description'', JStr ''Desc2''),
       (''num_employees'', JNum 2), (''logo_url'', JNull)]]"

definition sample_jobs :: "jsobj list" where
  "sample_jobs =
     [[(''id'', JNum 1), (''title'', JStr ''J1''), (''salary'', JNum 150000),
       (''equity'', JStr ''0.01''), (''company_handle'', JStr ''c1'')]]"

definition sample_db :: "jsval \<Rightarrow> db" where
  "sample_db handle s =
     (if fst s = get_lookup then Inr (get_lookup_rows sample_companies handle)
      else Inr (get_select_rows sample_companies sample_jobs handle))"

definition J1 :: job where
  "J1 = \<lparr>job_id = 1, job_title = ''J1'', job_salary = Some 150000,
         job_equity = Some (1 / 100), job_companyHandle = ''c1''\<rparr>"

definition J2 :: job where
  "J2 = \<lparr>job_id = 2, job_title = ''J2'', job_salary = Some 175000,
         job_equity = None, job_companyHandle = ''c2''\<rparr>"

definition J3 :: job where
  "J3 = \<lparr>job_id = 3, job_title = ''J3'', job_salary = Some 200000,
         job_equity = Some (3 / 100), job_companyHandle = ''c3''\<rparr>"

definition J4 :: job where
  "J4 = \<lparr>job_id = 4, job_title = ''J4'', job_salary = None,
         job_equity = Some 0, job_companyHandle = ''c1''\<rparr>"

section \<open>Auxiliary facts\<close>

lemma decimal_digit: "n < 10 \<Longrightarrow> decimal n = [digit n]"
  by (simp add: decimal.simps)

lemma set_fragments_nth:
  "i < length keys \<Longrightarrow> set_fragments col keys ! i = set_fragment (col (keys ! i)) (i + 1)"
  by (simp add: set_fragments_def del: upt_Suc)

lemma length_set_fragments: "length (set_fragments col keys) = length keys"
  by (simp add: set_fragments_def del: upt_Suc)

lemma map_enumerate_set_fragments:
  "map (\<lambda>(idx, colName). set_fragment (col colName) (idx + 1)) (enumerate 0 keys)
     = set_fragments col keys"
  by (rule nth_equalityI) (simp_all add: set_fragments_def nth_enumerate_eq del: upt_Suc)

lemma js_or_resolved:
  "ToString (js_or (get_member jsToSql colName) (JStr colName)) = resolved_column jsToSql colName"
  by (simp add: js_or_def resolved_column_def)

lemma get_member_fixed_name:
  assumes "key \<in> set [''name'', ''minEmployees'', ''maxEmployees'', ''handle'', ''description'',
                        ''numEmployees'', ''logoUrl'', ''id'', ''title'', ''salary'', ''equity'']"
  shows "get_member obj key = get_prop obj key"
  using assms by (auto simp: get_member_def get_prop_def Object_prototype_def split: option.splits)

lemma js_gt_numbers: "js_gt (JNum a) (JNum b) = (b < a)"
  by (simp add: js_gt_def)

lemma js_gt_undefined_left: "js_gt JUndefined b = False"
  by (cases b) (simp_all add: js_gt_def split: option.splits jsval.splits)

lemma js_gt_undefined_right: "js_gt a JUndefined = False"
  by (cases a) (simp_all add: js_gt_def split: option.splits jsval.splits)

lemma findAll_compiled:
  assumes "\<not> js_gt (get_prop searchFilters ''minEmployees'') (get_prop searchFilters ''maxEmployees'')"
  shows "findAll db searchFilters =
           db_query db (findAll_select @ where_clause (present_criteria searchFilters) @ '' ORDER BY name'')
             (map criterion_value (present_criteria searchFilters))"
proof -
  have r: "\<And>m. await m (\<lambda>rows. return rows) = m"
    by (simp add: await_def return_def split: prod.splits sum.splits)
  show ?thesis
    using assms
    by (cases "get_prop searchFilters ''name'' = JUndefined";
        cases "get_prop searchFilters ''minEmployees'' = JUndefined";
        cases "get_prop searchFilters ''maxEmployees'' = JUndefined")
       (simp_all add: findAll_def r present_criteria_def where_clause_def push_filter_def Let_def)
qed

lemma get_prop_filter:
  "get_prop (filter (\<lambda>(k, v). P k) obj) k = (if P k then get_prop obj k else JUndefined)"
  by (induction obj) (auto simp: get_prop_def)

lemma truthy_first_row: "truthy (first_row rows) = (rows \<noteq> [])"
  by (cases rows) (simp_all add: first_row_def)

lemma remove_outcome:
  "remove db handle =
     (case db (remove_text, [handle]) of
        Inl message \<Rightarrow> (Inl (DatabaseError message), [(remove_text, [handle])])
      | Inr rows \<Rightarrow>
          (if rows = [] then Inl (NotFoundError (''No company: '' @ ToString handle)) else Inr JUndefined,
           [(remove_text, [handle])]))"
  by (simp add: remove_def await_def db_query_def throw_def return_def truthy_first_row
        split: sum.splits)

lemma update_outcome:
  assumes "sqlForPartialUpdate data
             [(''numEmployees'', JStr ''num_employees''), (''logoUrl'', JStr ''logo_url'')] = Inr r"
  shows "update db handle data =
     (let s = (update_text (setCols r) (''$'' @ decimal (length (values' r) + 1)),
               values' r @ [handle]) in
      case db s of
        Inl message \<Rightarrow> (Inl (DatabaseError message), [s])
      | Inr rows \<Rightarrow>
          (if rows = [] then Inl (NotFoundError (''No company: '' @ ToString handle))
           else Inr (first_row rows), [s]))"
  using assms
  by (simp add: update_def await_def db_query_def throw_def return_def truthy_first_row Let_def
        split: sum.splits)

lemma update_no_data:
  assumes "sqlForPartialUpdate data
             [(''numEmployees'', JStr ''num_employees''), (''logoUrl'', JStr ''logo_url'')] = Inl e"
  shows "update db handle data = (Inl e, [])"
  using assms by (simp add: update_def throw_def)

lemma full_join_single_unmatched:
  assumes one: "filter (\<lambda>c. sql_eq (get_prop c ''handle'') handle) companies = [company]"
    and none: "filter (\<lambda>j. sql_eq handle (get_prop j ''company_handle'')) jobs = []"
  shows "filter (\<lambda>(c, j). sql_eq (column c ''handle'') handle)
          (full_join companies jobs
             (\<lambda>c j. sql_eq (get_prop c ''handle'') (get_prop j ''company_handle'')))
         = [(Some company, None)]"
proof -
  let ?cond = "\<lambda>c j. sql_eq (get_prop c ''handle'') (get_prop j ''company_handle'')"
  let ?here = "\<lambda>c. sql_eq (get_prop c ''handle'') handle"
  have nojob: "\<And>c j. ?here c \<Longrightarrow> j \<in> set jobs \<Longrightarrow> \<not> ?cond c j"
  proof
    fix c j assume h: "?here c" and j: "j \<in> set jobs" and c: "?cond c j"
    then have "sql_eq handle (get_prop j ''company_handle'')" by (auto simp: sql_eq_def)
    with j have "j \<in> set (filter (\<lambda>j. sql_eq handle (get_prop j ''company_handle'')) jobs)" by simp
    with none show False by simp
  qed
  have matched: "filter (\<lambda>(c, j). sql_eq (column c ''handle'') handle)
          (map (\<lambda>(l, r). (Some l, Some r)) (filter (\<lambda>(l, r). ?cond l r) (List.product companies jobs))) = []"
    by (auto simp: filter_empty_conv column_def dest: nojob)
  have "filter (\<lambda>l. ?here l \<and> \<not> list_ex (?cond l) jobs) companies
        = filter (\<lambda>l. \<not> list_ex (?cond l) jobs) (filter ?here companies)"
    by (simp add: conj_commute)
  also have "\<dots> = [company]"
  proof -
    have "company \<in> set (filter ?here companies)" using one by simp
    then have "?here company" by simp
    then have "\<not> list_ex (?cond company) jobs" by (auto simp: list_ex_iff dest: nojob)
    then show ?thesis using one by simp
  qed
  finally have left: "filter (\<lambda>(c, j). sql_eq (column c ''handle'') handle)
          (map (\<lambda>l. (Some l, None)) (filter (\<lambda>l. \<not> list_ex (?cond l) jobs) companies))
        = [(Some company, None)]"
    by (simp add: filter_map comp_def column_def conj_commute)
  have right: "filter (\<lambda>(c, j). sql_eq (column c ''handle'') handle)
          (map (\<lambda>r. (None, Some r)) (filter (\<lambda>r. \<not> list_ex (\<lambda>l. ?cond l r) companies) jobs)) = []"
    by (simp add: filter_empty_conv column_def sql_eq_def)
  show ?thesis
    unfolding full_join_def filter_append matched left right by simp
qed

lemma job_predicates_without_flag:
  "job_predicates criteria =
     job_predicates (criteria\<lparr>hasEquity := None\<rparr>)
     @ (if hasEquity criteria = Some True then [EquityPositive] else [])"
  by (simp add: job_predicates_def)

section \<open>The partial update compiler\<close>

text \<open>
  What \<open>sqlForPartialUpdate\<close> returns for a field-set with at least one key: the fragments
  of \<open>resolved_column\<close> joined by commas, and the values of the field-set in its order.
\<close>

lemma sqlForPartialUpdate_compiled:
  assumes "Object_keys dataToUpdate \<noteq> []"
  shows "sqlForPartialUpdate dataToUpdate jsToSql =
           Inr \<lparr>setCols = js_join '', ''
                              (set_fragments (resolved_column jsToSql) (Object_keys dataToUpdate)),
                values' = Object_values dataToUpdate\<rparr>"
  using assms map_enumerate_set_fragments [of "resolved_column jsToSql" "Object_keys dataToUpdate"]
  by (simp add: sqlForPartialUpdate_def js_or_resolved set_fragment_def)

text \<open>
  The two resolutions of the column agree at a key that the mapper holds with a truthy
  entry, and at a key that neither the mapper nor \<open>Object.prototype\<close> holds.
\<close>

lemma resolved_column_own:
  "map_of jsToSql key = Some v \<Longrightarrow> truthy v \<Longrightarrow>
     resolved_column jsToSql key = claimed_column jsToSql key"
  by (simp add: resolved_column_def claimed_column_def get_member_def)

lemma resolved_column_absent:
  "map_of jsToSql key = None \<Longrightarrow> Object_prototype key = None \<Longrightarrow>
     resolved_column jsToSql key = claimed_column jsToSql key"
  by (simp add: resolved_column_def claimed_column_def get_member_def)

text \<open>The field-set and the mapper of \<open>helpers/sql.test.js\<close>.\<close>

lemma sqlForPartialUpdate_test:
  \<open>sqlForPartialUpdate [(''numEmployees'', JNum 1000), (''logoUrl'', JStr ''/logos/logo2.png'')]
         [(''numEmployees'', JStr ''num_employees''), (''logoUrl'', JStr ''logo_url'')]
       = Inr \<lparr>setCols = ''"num_employees"=$1, "logo_url"=$2'',
              values' = [JNum 1000, JStr ''/logos/logo2.png'']\<rparr>\<close>
  by (simp add: sqlForPartialUpdate_compiled Object_keys_def Object_values_def set_fragments_def
       set_fragment_def resolved_column_def get_member_def decimal_digit digit_def)

text \<open>
  C1. For a field-set with at least one key, \<open>setCols\<close> is to be the comma-join of one
  fragment \<open>"column"=$n\<close> per key, in key order and numbered from 1, the column being the
  mapper's entry when the key is present in the mapper and the key itself otherwise, and
  \<open>values\<close> the values in the same order. The code reads the mapper as
  \<open>jsToSql[colName]\<close>, which also finds what the mapper inherits from
  \<open>Object.prototype\<close>. With the field-set \<open>{constructor: 1, toString: 2, name: 3}\<close> and
  the empty mapper no key is present in the mapper, so the clause is to be
  \<open>"constructor"=$1, "toString"=$2, "name"=$3\<close>; the code returns the text of the
  inherited functions as the first two columns. The values and the numbering are as
  stated.
\<close>

theorem sqlForPartialUpdate_inherited_key:
  \<open>sqlForPartialUpdate [(''constructor'', JNum 1), (''toString'', JNum 2), (''name'', JNum 3)] []
     = Inr \<lparr>setCols = ''"function Object() { [native code] }"=$1, "function toString() { [native code] }"=$2, "name"=$3'',
            values' = [JNum 1, JNum 2, JNum 3]\<rparr>
   \<and> js_join '', '' (set_fragments (claimed_column [])
                      (Object_keys [(''constructor'', JNum 1), (''toString'', JNum 2), (''name'', JNum 3)]))
       = ''"constructor"=$1, "toString"=$2, "name"=$3''\<close>
  by (simp add: sqlForPartialUpdate_compiled Object_keys_def Object_values_def set_fragments_def
       set_fragment_def resolved_column_def claimed_column_def get_member_def Object_prototype_def
       decimal_digit digit_def)

text \<open>
  C2. With a field-set that has no key, \<open>sqlForPartialUpdate\<close> throws
  \<open>BadRequestError("No data")\<close>, whatever the column mapper is; no SET clause and no
  value list is returned.
\<close>

theorem sqlForPartialUpdate_empty:
  "sqlForPartialUpdate [] jsToSql = Inl (BadRequestError ''No data'')"
  by (simp add: sqlForPartialUpdate_def Object_keys_def)

section \<open>The company search\<close>

text \<open>
  C3. When \<open>minEmployees\<close> and \<open>maxEmployees\<close> are both present, as numbers, and the
  minimum is greater than the maximum, \<open>Company.findAll\<close> throws \<open>BadRequestError\<close> and
  has issued no statement, whatever else the filter object holds.
\<close>

theorem findAll_rejects_inverted_range:
  assumes "get_prop searchFilters ''minEmployees'' = JNum lo"
    and "get_prop searchFilters ''maxEmployees'' = JNum hi"
    and "hi < lo"
  shows "findAll db searchFilters =
           (Inl (BadRequestError ''min employees can not be greater the max employees''), [])"
  using assms by (simp add: findAll_def js_gt_numbers throw_def)

theorem findAll_rejects_inverted_range_witness:
  "get_prop [(''name'', JStr ''net''), (''minEmployees'', JNum 50), (''maxEmployees'', JNum 10)]
       ''minEmployees'' = JNum 50
   \<and> get_prop [(''name'', JStr ''net''), (''minEmployees'', JNum 50), (''maxEmployees'', JNum 10)]
       ''maxEmployees'' = JNum 10
   \<and> (10 :: int) < 50
   \<and> findAll (\<lambda>s. Inr [])
         [(''name'', JStr ''net''), (''minEmployees'', JNum 50), (''maxEmployees'', JNum 10)]
       = (Inl (BadRequestError ''min employees can not be greater the max employees''), [])"
  using findAll_rejects_inverted_range
    [of "[(''name'', JStr ''net''), (''minEmployees'', JNum 50), (''maxEmployees'', JNum 10)]"
        50 10 "\<lambda>s. Inr []"]
  by (simp add: get_prop_def)

text \<open>
  C4. For a filter object that passes the range check, \<open>Company.findAll\<close> issues one
  statement: the base SELECT, the WHERE clause and the ordering clause. The WHERE clause
  has one predicate and the value list one value per present criterion, in the order name,
  \<open>minEmployees\<close>, \<open>maxEmployees\<close>; the predicates are joined by \<open>AND\<close>; the name predicate
  is \<open>ILIKE\<close> against \<open>%name%\<close>, the numeric predicates are \<open>>=\<close> and \<open><=\<close> on
  \<open>num_employees\<close>, and each predicate carries the position of its value in the list.
\<close>

theorem findAll_where_clause:
  assumes "\<not> js_gt (get_prop searchFilters ''minEmployees'') (get_prop searchFilters ''maxEmployees'')"
  shows "findAll db searchFilters =
           db_query db
             (findAll_select @ where_clause (present_criteria searchFilters) @ '' ORDER BY name'')
             (map criterion_value (present_criteria searchFilters))
         \<and> (\<forall>i < length (present_criteria searchFilters).
               map criterion_value (present_criteria searchFilters) ! i
                 = criterion_value (present_criteria searchFilters ! i))"
  using findAll_compiled [OF assms] by simp

theorem findAll_where_clause_witness:
  \<open>\<not> js_gt (get_prop [(''name'', JStr ''net''), (''minEmployees'', JNum 1), (''maxEmployees'', JNum 10)] ''minEmployees'')
           (get_prop [(''name'', JStr ''net''), (''minEmployees'', JNum 1), (''maxEmployees'', JNum 10)] ''maxEmployees'')
   \<and> findAll (\<lambda>s. Inr []) [(''name'', JStr ''net''), (''minEmployees'', JNum 1), (''maxEmployees'', JNum 10)]
       = (Inr [], [(findAll_select @ '' WHERE name ILIKE $1 AND num_employees >= $2 AND num_employees <= $3 ORDER BY name'',
                    [JStr ''%net%'', JNum 1, JNum 10])])\<close>
  using findAll_where_clause
    [of "[(''name'', JStr ''net''), (''minEmployees'', JNum 1), (''maxEmployees'', JNum 10)]" "\<lambda>s. Inr []"]
  by (simp add: get_prop_def js_gt_numbers present_criteria_def where_clause_def db_query_def
        decimal_digit digit_def)

text \<open>
  C6. A filter object in which none of \<open>name\<close>, \<open>minEmployees\<close>, \<open>maxEmployees\<close> is
  present makes \<open>Company.findAll\<close> issue the base SELECT followed by \<open>ORDER BY name\<close>,
  with no WHERE clause and an empty value list; when predicates were added, the statement
  ends with the same ordering clause, after the WHERE clause.
\<close>

theorem findAll_no_criteria:
  "(get_prop searchFilters ''name'' = JUndefined
      \<and> get_prop searchFilters ''minEmployees'' = JUndefined
      \<and> get_prop searchFilters ''maxEmployees'' = JUndefined
    \<longrightarrow> findAll db searchFilters = db_query db (findAll_select @ '' ORDER BY name'') [])
   \<and> (\<not> js_gt (get_prop searchFilters ''minEmployees'') (get_prop searchFilters ''maxEmployees'')
        \<and> present_criteria searchFilters \<noteq> []
      \<longrightarrow> (\<exists>predicates. predicates \<noteq> [] \<and> length predicates = length (present_criteria searchFilters)
            \<and> findAll db searchFilters =
                db_query db (findAll_select @ '' WHERE '' @ js_join '' AND '' predicates @ '' ORDER BY name'')
                  (map criterion_value (present_criteria searchFilters))))"
proof (intro conjI impI)
  assume a: "get_prop searchFilters ''name'' = JUndefined
      \<and> get_prop searchFilters ''minEmployees'' = JUndefined
      \<and> get_prop searchFilters ''maxEmployees'' = JUndefined"
  then have "\<not> js_gt (get_prop searchFilters ''minEmployees'') (get_prop searchFilters ''maxEmployees'')"
    by (simp add: js_gt_undefined_left)
  from findAll_compiled [OF this] a
  show "findAll db searchFilters = db_query db (findAll_select @ '' ORDER BY name'') []"
    by (simp add: present_criteria_def where_clause_def)
next
  assume a: "\<not> js_gt (get_prop searchFilters ''minEmployees'') (get_prop searchFilters ''maxEmployees'')
        \<and> present_criteria searchFilters \<noteq> []"
  let ?ps = "map (\<lambda>n. criterion_predicate (present_criteria searchFilters ! (n - 1)) n)
               [1..<Suc (length (present_criteria searchFilters))]"
  have "?ps \<noteq> []" using a by (simp del: upt_Suc)
  moreover have "length ?ps = length (present_criteria searchFilters)" by (simp del: upt_Suc)
  moreover have "findAll db searchFilters =
                db_query db (findAll_select @ '' WHERE '' @ js_join '' AND '' ?ps @ '' ORDER BY name'')
                  (map criterion_value (present_criteria searchFilters))"
    using findAll_compiled [of searchFilters db] a by (simp add: where_clause_def del: upt_Suc)
  ultimately show "\<exists>predicates. predicates \<noteq> [] \<and> length predicates = length (present_criteria searchFilters)
            \<and> findAll db searchFilters =
                db_query db (findAll_select @ '' WHERE '' @ js_join '' AND '' predicates @ '' ORDER BY name'')
                  (map criterion_value (present_criteria searchFilters))"
    by blast
qed

theorem findAll_no_criteria_witness:
  \<open>findAll (\<lambda>s. Inr []) [] = (Inr [], [(findAll_select @ '' ORDER BY name'', [])])
   \<and> findAll (\<lambda>s. Inr []) [(''color'', JStr ''red'')] = (Inr [], [(findAll_select @ '' ORDER BY name'', [])])
   \<and> (\<exists>predicates. predicates \<noteq> [] \<and> length predicates = 1
        \<and> findAll (\<lambda>s. Inr []) [(''minEmployees'', JNum 5)]
            = (Inr [], [(findAll_select @ '' WHERE '' @ js_join '' AND '' predicates @ '' ORDER BY name'',
                         [JNum 5])]))\<close>
  using findAll_no_criteria [of "[]" "\<lambda>s. Inr []"]
        findAll_no_criteria [of "[(''color'', JStr ''red'')]" "\<lambda>s. Inr []"]
        findAll_no_criteria [of "[(''minEmployees'', JNum 5)]" "\<lambda>s. Inr []"]
  by (simp add: get_prop_def db_query_def present_criteria_def js_gt_undefined_right
        decimal_digit digit_def del: upt_Suc)

text \<open>
  C7. Keys of the filter object other than \<open>name\<close>, \<open>minEmployees\<close> and \<open>maxEmployees\<close>
  are ignored: \<open>Company.findAll\<close> has the same outcome and issues the same statement as on
  the object with those keys removed.
\<close>

theorem findAll_ignores_unrecognized:
  "findAll db searchFilters = findAll db (filter (\<lambda>(k, v). k \<in> set recognized) searchFilters)"
  by (simp add: findAll_def get_prop_filter recognized_def)

theorem findAll_ignores_unrecognized_witness:
  \<open>findAll (\<lambda>s. Inr []) [(''color'', JStr ''red''), (''name'', JStr ''net''), (''page'', JNum 2)]
     = findAll (\<lambda>s. Inr []) [(''name'', JStr ''net'')]\<close>
  using findAll_ignores_unrecognized
    [of "\<lambda>s. Inr []" "[(''color'', JStr ''red''), (''name'', JStr ''net''), (''page'', JNum 2)]"]
  by (simp add: recognized_def)

section \<open>Mutations and lookups of a company\<close>

text \<open>
  C9. \<open>Company.update\<close> and \<open>Company.remove\<close> throw \<open>NotFoundError\<close> exactly when they
  have executed their statement and the database has answered it with no row. The error
  is raised by the model function, after the statement, and its message names the handle;
  \<open>sqlForPartialUpdate\<close> itself never raises it.
\<close>

theorem mutation_not_found:
  "(fst (update db handle data) = Inl (NotFoundError (''No company: '' @ ToString handle))
      \<longleftrightarrow> (\<exists>s. snd (update db handle data) = [s] \<and> db s = Inr []))
   \<and> (fst (remove db handle) = Inl (NotFoundError (''No company: '' @ ToString handle))
      \<longleftrightarrow> (\<exists>s. snd (remove db handle) = [s] \<and> db s = Inr []))
   \<and> (\<forall>message. (fst (update db handle data) = Inl (NotFoundError message)
                  \<longrightarrow> message = ''No company: '' @ ToString handle)
               \<and> (fst (remove db handle) = Inl (NotFoundError message)
                  \<longrightarrow> message = ''No company: '' @ ToString handle)
               \<and> sqlForPartialUpdate data jsToSql \<noteq> Inl (NotFoundError message))"
proof -
  have rem: "fst (remove db handle) = Inl (NotFoundError (''No company: '' @ ToString handle))
      \<longleftrightarrow> (\<exists>s. snd (remove db handle) = [s] \<and> db s = Inr [])"
    by (cases "db (remove_text, [handle])") (auto simp: remove_outcome)
  have rem2: "\<And>message. fst (remove db handle) = Inl (NotFoundError message)
                  \<Longrightarrow> message = ''No company: '' @ ToString handle"
    by (cases "db (remove_text, [handle])") (auto simp: remove_outcome split: if_splits)
  have upd: "(fst (update db handle data) = Inl (NotFoundError (''No company: '' @ ToString handle))
      \<longleftrightarrow> (\<exists>s. snd (update db handle data) = [s] \<and> db s = Inr []))
     \<and> (\<forall>message. fst (update db handle data) = Inl (NotFoundError message)
                  \<longrightarrow> message = ''No company: '' @ ToString handle)"
  proof (cases "sqlForPartialUpdate data
             [(''numEmployees'', JStr ''num_employees''), (''logoUrl'', JStr ''logo_url'')]")
    case (Inl e)
    then have "e = BadRequestError ''No data''"
      by (auto simp: sqlForPartialUpdate_def Let_def split: if_splits)
    with update_no_data [OF Inl] show ?thesis by simp
  next
    case (Inr r)
    show ?thesis
      by (cases "db (update_text (setCols r) (''$'' @ decimal (length (values' r) + 1)),
               values' r @ [handle])")
         (auto simp: update_outcome [OF Inr] Let_def split: if_splits)
  qed
  have compiler: "\<And>message. sqlForPartialUpdate data jsToSql \<noteq> Inl (NotFoundError message)"
    by (simp add: sqlForPartialUpdate_def Let_def)
  from rem rem2 upd compiler show ?thesis by blast
qed

theorem mutation_not_found_witness:
  "fst (update (\<lambda>s. Inr []) (JStr ''nope'') [(''name'', JStr ''New'')])
     = Inl (NotFoundError ''No company: nope'')
   \<and> fst (remove (\<lambda>s. Inr []) (JStr ''nope'')) = Inl (NotFoundError ''No company: nope'')
   \<and> fst (remove (\<lambda>s. Inr [[(''handle'', JStr ''c1'')]]) (JStr ''c1'')) = Inr JUndefined
   \<and> fst (update (\<lambda>s. Inr []) (JStr ''c1'') []) = Inl (BadRequestError ''No data'')"
  using mutation_not_found [of "\<lambda>s. Inr []" "JStr ''nope''" "[(''name'', JStr ''New'')]"]
        mutation_not_found [of "\<lambda>s. Inr [[(''handle'', JStr ''c1'')]]" "JStr ''c1''" "[]"]
  by (simp add: remove_outcome update_no_data
        update_def sqlForPartialUpdate_def Object_keys_def Object_values_def await_def db_query_def
        throw_def return_def first_row_def)

text \<open>
  C10. For a company that exists and has no job, the \<open>FULL JOIN\<close> of \<open>Company.get\<close>
  answers with one row whose job columns are null, so \<open>get\<close> returns the company with
  \<open>jobs\<close> a list of one entry whose \<open>id\<close>, \<open>title\<close>, \<open>salary\<close> and \<open>equity\<close> are all
  null, and not the empty list.
\<close>

theorem get_company_without_jobs:
  assumes "answers_get db companies jobs handle"
    and "filter (\<lambda>c. sql_eq (get_prop c ''handle'') handle) companies = [company]"
    and "filter (\<lambda>j. sql_eq handle (get_prop j ''company_handle'')) jobs = []"
  shows "fst (get db handle) =
           Inr (JObj [(''handle'', handle),
                      (''name'', get_prop company ''name''),
                      (''description'', get_prop company ''description''),
                      (''numEmployees'', get_prop company ''num_employees''),
                      (''logoUrl'', get_prop company ''logo_url''),
                      (''jobs'', JArr [JObj [(''id'', JNull), (''title'', JNull),
                                             (''salary'', JNull), (''equity'', JNull)]])])"
proof -
  have "company \<in> set (filter (\<lambda>c. sql_eq (get_prop c ''handle'') handle) companies)"
    using assms(2) by simp
  then have h: "get_prop company ''handle'' = handle" by (simp add: sql_eq_def)
  have rows: "get_select_rows companies jobs handle =
      [[(''handle'', handle),
        (''name'', get_prop company ''name''),
        (''description'', get_prop company ''description''),
        (''numEmployees'', get_prop company ''num_employees''),
        (''logoUrl'', get_prop company ''logo_url''),
        (''title'', JNull), (''salary'', JNull), (''equity'', JNull), (''id'', JNull)]]"
    unfolding get_select_rows_def full_join_single_unmatched [OF assms(2,3)]
    by (simp add: column_def h)
  show ?thesis
    using assms(1)
    by (simp add: get_def answers_get_def await_def db_query_def return_def rows get_prop_def)
qed

theorem get_company_without_jobs_witness:
  "answers_get (sample_db (JStr ''c2'')) sample_companies sample_jobs (JStr ''c2'')
   \<and> filter (\<lambda>c. sql_eq (get_prop c ''handle'') (JStr ''c2'')) sample_companies
       = [sample_companies ! 1]
   \<and> filter (\<lambda>j. sql_eq (JStr ''c2'') (get_prop j ''company_handle'')) sample_jobs = []
   \<and> fst (get (sample_db (JStr ''c2'')) (JStr ''c2'')) =
           Inr (JObj [(''handle'', JStr ''c2''),
                      (''name'', JStr ''C2''),
                      (''description'', JStr ''Desc2''),
                      (''numEmployees'', JNum 2),
                      (''logoUrl'', JNull),
                      (''jobs'', JArr [JObj [(''id'', JNull), (''title'', JNull),
                                             (''salary'', JNull), (''equity'', JNull)]])])"
proof -
  have neq: "get_select \<noteq> get_lookup"
    by (simp add: get_select_def get_lookup_def)
  have a: "answers_get (sample_db (JStr ''c2'')) sample_companies sample_jobs (JStr ''c2'')"
    by (simp add: answers_get_def sample_db_def neq)
  have b: "filter (\<lambda>c. sql_eq (get_prop c ''handle'') (JStr ''c2'')) sample_companies
             = [sample_companies ! 1]"
    by (simp add: sample_companies_def sql_eq_def get_prop_def)
  have c: "filter (\<lambda>j. sql_eq (JStr ''c2'') (get_prop j ''company_handle'')) sample_jobs = []"
    by (simp add: sample_jobs_def sql_eq_def get_prop_def)
  from get_company_without_jobs [OF a b c] a b c show ?thesis
    by (simp add: sample_companies_def get_prop_def)
qed

section \<open>The job search filter\<close>

text \<open>
  C5. When \<open>hasEquity\<close> is true, a job search keeps exactly the rows that pass the other
  criteria and whose equity is not null and greater than zero. When \<open>hasEquity\<close> is false
  or absent, no equity predicate is added and the search keeps the same rows as without
  the flag, rows with null or zero equity included.
\<close>

theorem job_search_hasEquity:
  "(hasEquity criteria = Some True \<longrightarrow>
      job_search criteria rows =
        filter (\<lambda>j. \<exists>e. job_equity j = Some e \<and> 0 < e)
          (job_search (criteria\<lparr>hasEquity := None\<rparr>) rows))
   \<and> (hasEquity criteria \<noteq> Some True \<longrightarrow>
        EquityPositive \<notin> set (job_predicates criteria)
        \<and> job_search criteria rows = job_search (criteria\<lparr>hasEquity := None\<rparr>) rows)"
proof (intro conjI impI)
  assume t: "hasEquity criteria = Some True"
  have "\<And>j. satisfies j EquityPositive = (\<exists>e. job_equity j = Some e \<and> 0 < e)"
    by (simp split: option.splits)
  then show "job_search criteria rows =
        filter (\<lambda>j. \<exists>e. job_equity j = Some e \<and> 0 < e)
          (job_search (criteria\<lparr>hasEquity := None\<rparr>) rows)"
    unfolding job_search_def job_predicates_without_flag [of criteria]
    by (simp add: t conj_commute del: satisfies.simps)
next
  assume f: "hasEquity criteria \<noteq> Some True"
  then show "EquityPositive \<notin> set (job_predicates criteria)"
    by (auto simp: job_predicates_def split: option.splits)
  from f show "job_search criteria rows = job_search (criteria\<lparr>hasEquity := None\<rparr>) rows"
    unfolding job_search_def job_predicates_without_flag [of criteria] by simp
qed

theorem job_search_hasEquity_witness:
  "job_search \<lparr>title = None, minSalary = None, hasEquity = Some True\<rparr> [J1, J2, J3, J4] = [J1, J3]
   \<and> job_search \<lparr>title = None, minSalary = None, hasEquity = Some False\<rparr> [J1, J2, J3, J4]
        = [J1, J2, J3, J4]
   \<and> job_search \<lparr>title = None, minSalary = None, hasEquity = None\<rparr> [J1, J2, J3, J4]
        = [J1, J2, J3, J4]"
  using job_search_hasEquity [of "\<lparr>title = None, minSalary = None, hasEquity = Some True\<rparr>" "[J1, J2, J3, J4]"]
        job_search_hasEquity [of "\<lparr>title = None, minSalary = None, hasEquity = Some False\<rparr>" "[J1, J2, J3, J4]"]
        job_search_hasEquity [of "\<lparr>title = None, minSalary = None, hasEquity = None\<rparr>" "[J1, J2, J3, J4]"]
  by (simp add: job_search_def job_predicates_def J1_def J2_def J3_def J4_def)

section \<open>The authorization gate\<close>

text \<open>
  C8. The policy of the \<open>/users/:username\<close> routes allows a request exactly when the
  claims are elevated or the identity of the claims equals the identity bound to the
  route, and denies it otherwise. A denied request ends with the unauthorized error before
  the handler runs: no statement is issued.
\<close>

theorem ensureUserOrAdmin_decision:
  "(ensureUserOrAdmin routeIdentity c = Allowed \<longleftrightarrow> isElevated c \<or> identity c = routeIdentity)
   \<and> (ensureUserOrAdmin routeIdentity c = Denied \<longleftrightarrow> \<not> (isElevated c \<or> identity c = routeIdentity))
   \<and> (ensureUserOrAdmin routeIdentity c = Denied \<longrightarrow>
        user_route handler c routeIdentity = (Inl UnauthorizedError, []))
   \<and> (ensureUserOrAdmin routeIdentity c = Allowed \<longrightarrow>
        user_route handler c routeIdentity = handler routeIdentity)"
  by (simp add: ensureUserOrAdmin_def user_route_def throw_def)

theorem ensureUserOrAdmin_decision_witness:
  "ensureUserOrAdmin ''bob'' \<lparr>identity = ''alice'', isElevated = False\<rparr> = Denied
   \<and> ensureUserOrAdmin ''bob'' \<lparr>identity = ''alice'', isElevated = True\<rparr> = Allowed
   \<and> ensureUserOrAdmin ''bob'' \<lparr>identity = ''bob'', isElevated = False\<rparr> = Allowed
   \<and> user_route (\<lambda>username. remove (\<lambda>s. Inr []) (JStr username))
        \<lparr>identity = ''alice'', isElevated = False\<rparr> ''bob'' = (Inl UnauthorizedError, [])"
  using ensureUserOrAdmin_decision [of "''bob''" "\<lparr>identity = ''alice'', isElevated = False\<rparr>"
          "\<lambda>username. remove (\<lambda>s. Inr []) (JStr username)"]
        ensureUserOrAdmin_decision [of "''bob''" "\<lparr>identity = ''alice'', isElevated = True\<rparr>"
          "\<lambda>username. remove (\<lambda>s. Inr []) (JStr username)"]
        ensureUserOrAdmin_decision [of "''bob''" "\<lparr>identity = ''bob'', isElevated = False\<rparr>"
          "\<lambda>username. remove (\<lambda>s. Inr []) (JStr username)"]
  by simp

end
